theory Spec2Isabelle
  imports Main "HOL-Library.Word"
begin

section \<open>Data model of sqlcertcache\<close>

text \<open>
  The package is modelled in its version with the in-memory map: \<open>Cache\<close> with the
  fields \<open>certs\<close>, \<open>certsMu\<close> and the four statements, and \<open>New\<close>, \<open>Get\<close>, \<open>Put\<close>
  and \<open>Delete\<close> on it.

  A Go \<open>[]byte\<close> is a list of 8-bit words and a Go \<open>string\<close> is a list of bytes, which is
  what \<^typ>\<open>string\<close> is. The model works on values: the nil slice and the empty slice are
  both \<open>[]\<close>, and a slice stored in the map is its contents at the time of the store.
\<close>

type_synonym bytes = "8 word list"

text \<open>
  The error values the package can return. \<open>ErrCacheMiss\<close> is \<open>autocert.ErrCacheMiss\<close>,
  \<open>ErrNoRows\<close> is \<open>sql.ErrNoRows\<close>, \<open>ErrorString m\<close> is \<open>errors.New(m)\<close>, and
  \<open>ErrDriver m\<close> stands for any other error value that the database hands back
  (connectivity, constraint violation, cancelled context).
\<close>

datatype error =
    ErrCacheMiss
  | ErrNoRows
  | ErrorString string
  | ErrDriver string

text \<open>The variadic \<open>args ...any\<close> of a statement: the package passes strings and byte slices.\<close>

datatype arg = AString string | ABytes bytes

text \<open>\<open>sql.Result\<close>: the package only calls \<open>RowsAffected() (int64, error)\<close> on it.\<close>

datatype Result = Result (RowsAffected: "error + 64 word")

text \<open>
  The part of \<open>*sql.DB\<close> that the package calls. The database is outside the package, so it
  is a parameter: each method takes the statement text, its arguments and the state \<open>'s\<close> of
  the database, and gives back its answer and the next state. \<open>'c\<close> is \<open>context.Context\<close>.
  \<open>QueryRowContext\<close> stands for \<open>QueryRowContext(...)\<close> followed by \<open>row.Scan(&data)\<close> on
  the single selected column: the scanned bytes, or the error of \<open>Scan\<close>.
\<close>

record ('c, 's) DB =
  Exec :: "string \<Rightarrow> arg list \<Rightarrow> 's \<Rightarrow> (error + Result) \<times> 's"
  ExecContext :: "'c \<Rightarrow> string \<Rightarrow> arg list \<Rightarrow> 's \<Rightarrow> (error + Result) \<times> 's"
  QueryRowContext :: "'c \<Rightarrow> string \<Rightarrow> arg list \<Rightarrow> 's \<Rightarrow> (error + bytes) \<times> 's"

text \<open>
  \<open>type Cache struct\<close>. The mutex \<open>certsMu\<close> is not a field of the model: every method holds
  it from entry to return, so the methods are modelled as atomic steps run one after another.
\<close>

record ('c, 's) Cache =
  conn :: "('c, 's) DB"
  certs :: "string \<rightharpoonup> bytes"
  getQuery :: string
  insertQuery :: string
  updateQuery :: string
  deleteQuery :: string

section \<open>\<open>strings.TrimSpace\<close>\<close>

text \<open>
  \<open>strings.TrimSpace\<close> removes the leading and the trailing runes for which
  \<open>unicode.IsSpace\<close> holds. \<open>spaceRunes\<close> lists the UTF-8 encodings of these runes:
  U+0009 to U+000D, U+0020, U+0085, U+00A0, U+1680, U+2000 to U+200A, U+2028, U+2029,
  U+202F, U+205F and U+3000.
\<close>

definition spaceRunes :: "string list" where
  "spaceRunes =
    [[CHR 0x09], [CHR 0x0A], [CHR 0x0B], [CHR 0x0C], [CHR 0x0D], [CHR 0x20],
     [CHR 0xC2, CHR 0x85], [CHR 0xC2, CHR 0xA0],
     [CHR 0xE1, CHR 0x9A, CHR 0x80],
     [CHR 0xE2, CHR 0x80, CHR 0x80], [CHR 0xE2, CHR 0x80, CHR 0x81],
     [CHR 0xE2, CHR 0x80, CHR 0x82], [CHR 0xE2, CHR 0x80, CHR 0x83],
     [CHR 0xE2, CHR 0x80, CHR 0x84], [CHR 0xE2, CHR 0x80, CHR 0x85],
     [CHR 0xE2, CHR 0x80, CHR 0x86], [CHR 0xE2, CHR 0x80, CHR 0x87],
     [CHR 0xE2, CHR 0x80, CHR 0x88], [CHR 0xE2, CHR 0x80, CHR 0x89],
     [CHR 0xE2, CHR 0x80, CHR 0x8A],
     [CHR 0xE2, CHR 0x80, CHR 0xA8], [CHR 0xE2, CHR 0x80, CHR 0xA9],
     [CHR 0xE2, CHR 0x80, CHR 0xAF],
     [CHR 0xE2, CHR 0x81, CHR 0x9F],
     [CHR 0xE3, CHR 0x80, CHR 0x80]]"

text \<open>The byte width of the first encoding in \<open>ws\<close> that \<open>s\<close> starts with; 0 when there is none.\<close>

fun runeWidth :: "string list \<Rightarrow> string \<Rightarrow> nat" where
  "runeWidth [] s = 0"
| "runeWidth (w # ws) s = (if take (length w) s = w then length w else runeWidth ws s)"

text \<open>Drop leading runes of \<open>ws\<close> as long as there is one.\<close>

fun trimRunes :: "string list \<Rightarrow> string \<Rightarrow> string" where
  "trimRunes ws [] = []"
| "trimRunes ws (c # cs) =
     (let n = runeWidth ws (c # cs)
      in if n = 0 then c # cs else trimRunes ws (drop (n - 1) cs))"

text \<open>
  The trailing runes are found by decoding backwards from the end, which on the reversed
  string is dropping the reversed encodings from the front.
\<close>

definition TrimSpace :: "string \<Rightarrow> string" where
  "TrimSpace s = rev (trimRunes (map rev spaceRunes) (rev (trimRunes spaceRunes s)))"

section \<open>The four statements and the schema\<close>

text \<open>\<open>fmt.Sprintf\<close> with one \<open>%s\<close> is the text before it, the table name, and the text after it.\<close>

definition createQuery :: "string \<Rightarrow> string" where
  "createQuery tableName =
     ''create table if not exists '' @ tableName @ '' ('' @ [CHR 0x0A, CHR 0x09, CHR 0x09]
     @ ''key  varchar(400) not null primary key, '' @ [CHR 0x0A, CHR 0x09, CHR 0x09]
     @ ''data bytea not null'' @ [CHR 0x0A, CHR 0x09] @ '');''"

definition fmtGetQuery :: "string \<Rightarrow> string" where
  "fmtGetQuery tableName = ''SELECT data FROM '' @ tableName"

definition fmtInsertQuery :: "string \<Rightarrow> string" where
  "fmtInsertQuery tableName = ''INSERT INTO '' @ tableName @ '' (key, data) VALUES($1, $2)''"

definition fmtUpdateQuery :: "string \<Rightarrow> string" where
  "fmtUpdateQuery tableName = ''UPDATE '' @ tableName @ '' SET data = $2 WHERE key = $1''"

definition fmtDeleteQuery :: "string \<Rightarrow> string" where
  "fmtDeleteQuery tableName = ''DELETE FROM '' @ tableName @ '' WHERE key = $1''"

section \<open>The operations\<close>

text \<open>
  \<open>func New(conn *sql.DB, tableName string) (*Cache, error)\<close>. The result is the error or
  the cache, together with the state in which the call leaves the database.
\<close>

definition New :: "('c, 's) DB \<Rightarrow> string \<Rightarrow> 's \<Rightarrow> (error + ('c, 's) Cache) \<times> 's" where
  "New cn tableName db =
     (if TrimSpace tableName = '''' then (Inl (ErrorString ''tableName must not be empty''), db)
      else
        (case Exec cn (createQuery tableName) [] db of
           (Inl err, db') \<Rightarrow> (Inl err, db')
         | (Inr _, db') \<Rightarrow>
             (Inr \<lparr> conn = cn,
                    certs = Map.empty,
                    getQuery = fmtGetQuery tableName,
                    insertQuery = fmtInsertQuery tableName,
                    updateQuery = fmtUpdateQuery tableName,
                    deleteQuery = fmtDeleteQuery tableName \<rparr>, db')))"

text \<open>
  \<open>func (c *Cache) Get(ctx, key) ([]byte, error)\<close>. The receiver is a pointer, so the
  cache after the call is part of the result.
\<close>

definition Get ::
  "('c, 's) Cache \<Rightarrow> 'c \<Rightarrow> string \<Rightarrow> 's \<Rightarrow> (error + bytes) \<times> ('c, 's) Cache \<times> 's" where
  "Get c ctx key db =
     (case certs c key of
        Some data \<Rightarrow> (Inr data, c, db)
      | None \<Rightarrow>
          (case QueryRowContext (conn c) ctx (getQuery c) [] db of
             (Inl err, db') \<Rightarrow>
               (if err = ErrNoRows then (Inl ErrCacheMiss, c, db') else (Inl err, c, db'))
           | (Inr data, db') \<Rightarrow> (Inr data, c, db')))"

text \<open>\<open>func (c *Cache) Put(ctx, key, data) error\<close>; \<open>None\<close> is the nil error.\<close>

definition Put ::
  "('c, 's) Cache \<Rightarrow> 'c \<Rightarrow> string \<Rightarrow> bytes \<Rightarrow> 's \<Rightarrow> error option \<times> ('c, 's) Cache \<times> 's" where
  "Put c ctx key data db =
     (case ExecContext (conn c) ctx (updateQuery c) [AString key, ABytes data] db of
        (Inl err, db1) \<Rightarrow> (Some err, c, db1)
      | (Inr result, db1) \<Rightarrow>
          (case RowsAffected result of
             Inl err \<Rightarrow> (Some err, c, db1)
           | Inr rowsAffected \<Rightarrow>
               (if rowsAffected = 0 then
                  (case ExecContext (conn c) ctx (insertQuery c) [AString key, ABytes data] db1 of
                     (Inl err, db2) \<Rightarrow> (Some err, c, db2)
                   | (Inr _, db2) \<Rightarrow> (None, c\<lparr>certs := (certs c)(key \<mapsto> data)\<rparr>, db2))
                else (None, c\<lparr>certs := (certs c)(key \<mapsto> data)\<rparr>, db1))))"

text \<open>\<open>func (c *Cache) Delete(ctx, key) error\<close>: the map entry goes first, then the row.\<close>

definition Delete ::
  "('c, 's) Cache \<Rightarrow> 'c \<Rightarrow> string \<Rightarrow> 's \<Rightarrow> error option \<times> ('c, 's) Cache \<times> 's" where
  "Delete c ctx key db =
     (let c1 = (if certs c key \<noteq> None then c\<lparr>certs := (certs c)(key := None)\<rparr> else c)
      in case ExecContext (conn c1) ctx (deleteQuery c1) [AString key] db of
           (Inl err, db') \<Rightarrow> (Some err, c1, db')
         | (Inr _, db') \<Rightarrow> (None, c1, db'))"

section \<open>Sequences of calls\<close>

text \<open>A call of one of the three methods, and a run of calls on one cache, one after another.\<close>

datatype 'c op = OpGet 'c string | OpPut 'c string bytes | OpDelete 'c string

fun step :: "'c op \<Rightarrow> ('c, 's) Cache \<times> 's \<Rightarrow> ('c, 's) Cache \<times> 's" where
  "step (OpGet ctx key) (c, db) = snd (Get c ctx key db)"
| "step (OpPut ctx key data) (c, db) = snd (Put c ctx key data db)"
| "step (OpDelete ctx key) (c, db) = snd (Delete c ctx key db)"

fun run :: "'c op list \<Rightarrow> ('c, 's) Cache \<times> 's \<Rightarrow> ('c, 's) Cache \<times> 's" where
  "run [] st = st"
| "run (x # xs) st = run xs (step x st)"

text \<open>\<open>writes k x\<close>: the call \<open>x\<close> is a \<open>Put(k, _)\<close> or a \<open>Delete(k)\<close>.\<close>

fun writes :: "string \<Rightarrow> 'c op \<Rightarrow> bool" where
  "writes k (OpGet ctx key) = False"
| "writes k (OpPut ctx key data) = (key = k)"
| "writes k (OpDelete ctx key) = (key = k)"

text \<open>The keys that are the target of a \<open>Put\<close> in a run.\<close>

fun putKeys :: "'c op list \<Rightarrow> string set" where
  "putKeys [] = {}"
| "putKeys (OpPut ctx key data # xs) = insert key (putKeys xs)"
| "putKeys (x # xs) = putKeys xs"

section \<open>Observing the statements a method issues\<close>

text \<open>
  \<open>traced d\<close> behaves as the database \<open>d\<close> and appends every call it receives, with the
  statement text and the arguments, to a log kept beside the state of \<open>d\<close>.
\<close>

datatype call =
    CallExec string "arg list"
  | CallExecContext string "arg list"
  | CallQueryRowContext string "arg list"

definition traced :: "('c, 's) DB \<Rightarrow> ('c, 's \<times> call list) DB" where
  "traced d =
     \<lparr> Exec = (\<lambda>q as (s, log).
          (fst (Exec d q as s), snd (Exec d q as s), log @ [CallExec q as])),
       ExecContext = (\<lambda>ctx q as (s, log).
          (fst (ExecContext d ctx q as s), snd (ExecContext d ctx q as s),
           log @ [CallExecContext q as])),
       QueryRowContext = (\<lambda>ctx q as (s, log).
          (fst (QueryRowContext d ctx q as s), snd (QueryRowContext d ctx q as s),
           log @ [CallQueryRowContext q as])) \<rparr>"

section \<open>Two databases for concrete runs\<close>

text \<open>
  \<open>pgDB t\<close> answers the five statements that the package issues for the table \<open>t\<close> the way
  PostgreSQL does on the schema of \<open>createQuery\<close>: the state is \<open>None\<close> while the table
  does not exist and otherwise its rows, at most one per key (\<open>key\<close> is the primary
  key). A call under a cancelled context fails. The select has no \<open>WHERE\<close> and no
  \<open>ORDER BY\<close>; \<open>QueryRow\<close> scans the first row of the answer, here the first row stored.
\<close>

datatype Context = Background | Canceled

type_synonym table = "(string \<times> bytes) list"

definition rowsWith :: "string \<Rightarrow> table \<Rightarrow> 64 word" where
  "rowsWith k rows = of_nat (length (filter (\<lambda>r. fst r = k) rows))"

definition pgExec :: "string \<Rightarrow> string \<Rightarrow> arg list \<Rightarrow> table option \<Rightarrow> (error + Result) \<times> table option" where
  "pgExec t q as db =
     (if q = createQuery t then
        (Inr (Result (Inr 0)), Some (case db of None \<Rightarrow> [] | Some rows \<Rightarrow> rows))
      else
        (case db of
           None \<Rightarrow> (Inl (ErrDriver ''relation does not exist''), db)
         | Some rows \<Rightarrow>
             (if q = fmtUpdateQuery t then
                (case as of
                   [AString k, ABytes v] \<Rightarrow>
                     (Inr (Result (Inr (rowsWith k rows))),
                      Some (map (\<lambda>r. if fst r = k then (k, v) else r) rows))
                 | _ \<Rightarrow> (Inl (ErrDriver ''wrong arguments''), db))
              else if q = fmtInsertQuery t then
                (case as of
                   [AString k, ABytes v] \<Rightarrow>
                     (if rowsWith k rows = 0
                      then (Inr (Result (Inr 1)), Some (rows @ [(k, v)]))
                      else (Inl (ErrDriver ''duplicate key value violates unique constraint''), db))
                 | _ \<Rightarrow> (Inl (ErrDriver ''wrong arguments''), db))
              else if q = fmtDeleteQuery t then
                (case as of
                   [AString k] \<Rightarrow>
                     (Inr (Result (Inr (rowsWith k rows))), Some (filter (\<lambda>r. fst r \<noteq> k) rows))
                 | _ \<Rightarrow> (Inl (ErrDriver ''wrong arguments''), db))
              else (Inl (ErrDriver ''syntax error''), db))))"

definition pgQueryRow :: "string \<Rightarrow> string \<Rightarrow> arg list \<Rightarrow> table option \<Rightarrow> (error + bytes) \<times> table option" where
  "pgQueryRow t q as db =
     (case db of
        None \<Rightarrow> (Inl (ErrDriver ''relation does not exist''), db)
      | Some rows \<Rightarrow>
          (if q = fmtGetQuery t \<and> as = [] then
             (case rows of
                [] \<Rightarrow> (Inl ErrNoRows, db)
              | r # _ \<Rightarrow> (Inr (snd r), db))
           else (Inl (ErrDriver ''syntax error''), db)))"

definition pgDB :: "string \<Rightarrow> (Context, table option) DB" where
  "pgDB t =
     \<lparr> Exec = pgExec t,
       ExecContext = (\<lambda>ctx q as db.
          if ctx = Canceled then (Inl (ErrDriver ''context canceled''), db) else pgExec t q as db),
       QueryRowContext = (\<lambda>ctx q as db.
          if ctx = Canceled then (Inl (ErrDriver ''context canceled''), db) else pgQueryRow t q as db) \<rparr>"

text \<open>
  \<open>mockDB\<close> is a scripted database: its state is the list of answers still to give, and
  each call takes the next one. It reaches the failures that \<open>pgDB\<close> does not have (a
  driver without \<open>RowsAffected\<close>, an insert that fails after the update found no row).
\<close>

datatype reply = ReplyResult "error + Result" | ReplyRow "error + bytes"

definition mockExec :: "reply list \<Rightarrow> (error + Result) \<times> reply list" where
  "mockExec rs =
     (case rs of
        ReplyResult r # rs' \<Rightarrow> (r, rs')
      | _ \<Rightarrow> (Inl (ErrDriver ''unexpected call''), rs))"

definition mockQueryRow :: "reply list \<Rightarrow> (error + bytes) \<times> reply list" where
  "mockQueryRow rs =
     (case rs of
        ReplyRow r # rs' \<Rightarrow> (r, rs')
      | _ \<Rightarrow> (Inl (ErrDriver ''unexpected call''), rs))"

definition mockDB :: "(Context, reply list) DB" where
  "mockDB =
     \<lparr> Exec = (\<lambda>q as rs. mockExec rs),
       ExecContext = (\<lambda>ctx q as rs. mockExec rs),
       QueryRowContext = (\<lambda>ctx q as rs. mockQueryRow rs) \<rparr>"

text \<open>The cache that \<open>New\<close> returns for the table \<open>t\<close> on the database \<open>d\<close>, with the map \<open>m\<close>.\<close>

definition cacheOf :: "('c, 's) DB \<Rightarrow> string \<Rightarrow> (string \<rightharpoonup> bytes) \<Rightarrow> ('c, 's) Cache" where
  "cacheOf d t m =
     \<lparr> conn = d, certs = m, getQuery = fmtGetQuery t, insertQuery = fmtInsertQuery t,
       updateQuery = fmtUpdateQuery t, deleteQuery = fmtDeleteQuery t \<rparr>"

section \<open>Blank table names\<close>

text \<open>
  A string that consists only of white space: some sequence of white-space runes, each in
  its UTF-8 encoding, one after another. The empty string is the empty sequence.
\<close>

definition blank :: "string \<Rightarrow> bool" where
  "blank s = (\<exists>ws. set ws \<subseteq> set spaceRunes \<and> s = concat ws)"

section \<open>Facts about \<open>TrimSpace\<close>\<close>


lemma runeWidth_take: "runeWidth rs s \<noteq> 0 \<Longrightarrow> take (runeWidth rs s) s \<in> set rs"
  by (induction rs) (auto split: if_splits)

lemma trimRunes_Nil_concat:
  "trimRunes rs s = [] \<Longrightarrow> \<exists>ws. set ws \<subseteq> set rs \<and> s = concat ws"
proof (induction rs s rule: trimRunes.induct)
  case (1 rs)
  have "set [] \<subseteq> set rs \<and> [] = concat ([] :: string list)" by simp
  then show ?case by blast
next
  case (2 rs c cs)
  let ?n = "runeWidth rs (c # cs)"
  from "2.prems" have n: "?n \<noteq> 0" by (auto simp: Let_def split: if_splits)
  with "2.prems" have "trimRunes rs (drop (?n - 1) cs) = []" by (simp add: Let_def)
  with "2.IH" [OF refl n] obtain ws where ws: "set ws \<subseteq> set rs" "drop (?n - 1) cs = concat ws"
    by blast
  from n have d: "drop ?n (c # cs) = drop (?n - 1) cs" by (cases ?n) simp_all
  have "c # cs = take ?n (c # cs) @ drop ?n (c # cs)" by simp
  with d ws have "c # cs = concat (take ?n (c # cs) # ws)" by simp
  moreover have "set (take ?n (c # cs) # ws) \<subseteq> set rs"
    using runeWidth_take [OF n] ws by simp
  ultimately show ?case by blast
qed

lemma spaceRunes_all_prefix_free:
  "list_all (\<lambda>w. \<forall>s. runeWidth spaceRunes (w @ s) = length w \<and> w \<noteq> []) spaceRunes"
  unfolding spaceRunes_def by simp

lemma spaceRunes_prefix_free:
  "w \<in> set spaceRunes \<Longrightarrow> runeWidth spaceRunes (w @ s) = length w \<and> w \<noteq> []"
  using spaceRunes_all_prefix_free by (simp add: list_all_iff)

lemma trimRunes_rune:
  assumes "w \<noteq> []" and "runeWidth rs (w @ s) = length w"
  shows "trimRunes rs (w @ s) = trimRunes rs s"
proof -
  from assms(1) obtain c cs where w: "w = c # cs" by (cases w) auto
  with assms(2) show ?thesis by (simp add: Let_def)
qed

lemma trimRunes_concat:
  "set ws \<subseteq> set spaceRunes \<Longrightarrow> trimRunes spaceRunes (concat ws @ s) = trimRunes spaceRunes s"
proof (induction ws)
  case Nil
  then show ?case by simp
next
  case (Cons w ws)
  then have w: "w \<in> set spaceRunes" and rest: "set ws \<subseteq> set spaceRunes" by simp_all
  have "trimRunes spaceRunes (w @ (concat ws @ s)) = trimRunes spaceRunes (concat ws @ s)"
    using spaceRunes_prefix_free [OF w, of "concat ws @ s"] by (intro trimRunes_rune) simp_all
  with Cons.IH [OF rest] show ?case by simp
qed

lemma blank_iff_trimRunes: "blank s \<longleftrightarrow> trimRunes spaceRunes s = []"
proof
  assume "blank s"
  then obtain ws where "set ws \<subseteq> set spaceRunes" "s = concat ws" by (auto simp: blank_def)
  with trimRunes_concat [of ws "[]"] show "trimRunes spaceRunes s = []" by simp
next
  assume "trimRunes spaceRunes s = []"
  from trimRunes_Nil_concat [OF this] show "blank s" by (simp add: blank_def)
qed

lemma runeWidth_Nil: "runeWidth rs [] = 0"
  by (induction rs) auto

lemma runeWidth_trimRunes: "runeWidth rs (trimRunes rs s) = 0"
  by (induction rs s rule: trimRunes.induct) (auto simp: Let_def runeWidth_Nil)

lemma trimRunes_fixed: "runeWidth rs s = 0 \<Longrightarrow> trimRunes rs s = s"
  by (cases s) (simp_all add: Let_def)

lemma TrimSpace_Nil_iff: "TrimSpace s = [] \<longleftrightarrow> trimRunes spaceRunes s = []"
proof
  assume "trimRunes spaceRunes s = []"
  then show "TrimSpace s = []" by (simp add: TrimSpace_def)
next
  let ?t = "trimRunes spaceRunes s"
  assume "TrimSpace s = []"
  then have "trimRunes (map rev spaceRunes) (rev ?t) = []" by (simp add: TrimSpace_def)
  from trimRunes_Nil_concat [OF this]
  obtain ws where ws: "set ws \<subseteq> set (map rev spaceRunes)" "rev ?t = concat ws" by blast
  have "?t = rev (rev ?t)" by simp
  also have "\<dots> = concat (map rev (rev ws))" using ws(2) by (simp add: rev_concat)
  finally have t: "?t = concat (map rev (rev ws))" .
  have "set (map rev (rev ws)) \<subseteq> set spaceRunes" using ws(1) by auto
  with t have "blank ?t" unfolding blank_def by blast
  then have "trimRunes spaceRunes ?t = []" by (simp add: blank_iff_trimRunes)
  moreover have "trimRunes spaceRunes ?t = ?t"
    by (rule trimRunes_fixed) (rule runeWidth_trimRunes)
  ultimately show "?t = []" by simp
qed

lemma TrimSpace_blank: "TrimSpace s = [] \<longleftrightarrow> blank s"
  by (simp add: TrimSpace_Nil_iff blank_iff_trimRunes)

section \<open>Facts about the operations\<close>

lemma traced_simps:
  "Exec (traced d) q as (s, log) = (fst (Exec d q as s), snd (Exec d q as s), log @ [CallExec q as])"
  "ExecContext (traced d) ctx q as (s, log) =
     (fst (ExecContext d ctx q as s), snd (ExecContext d ctx q as s), log @ [CallExecContext q as])"
  "QueryRowContext (traced d) ctx q as (s, log) =
     (fst (QueryRowContext d ctx q as s), snd (QueryRowContext d ctx q as s),
      log @ [CallQueryRowContext q as])"
  by (simp_all add: traced_def)

lemma Get_hit: "certs c k = Some v \<Longrightarrow> Get c ctx k db = (Inr v, c, db)"
  by (simp add: Get_def)

lemma Get_cache: "fst (snd (Get c ctx k db)) = c"
  by (simp add: Get_def split: option.splits prod.splits sum.splits)

lemma Put_certs_other: "k' \<noteq> k \<Longrightarrow> certs (fst (snd (Put c ctx k' v db))) k = certs c k"
  by (simp add: Put_def split: prod.splits sum.splits)

lemma Delete_certs_other: "k' \<noteq> k \<Longrightarrow> certs (fst (snd (Delete c ctx k' db))) k = certs c k"
  by (simp add: Delete_def Let_def split: prod.splits sum.splits)

lemma step_certs_other: "\<not> writes k x \<Longrightarrow> certs (fst (step x (c, db))) k = certs c k"
  by (cases x) (simp_all add: Get_cache Put_certs_other Delete_certs_other)

lemma run_certs_other:
  "\<forall>x \<in> set xs. \<not> writes k x \<Longrightarrow> certs (fst (run xs st)) k = certs (fst st) k"
proof (induction xs arbitrary: st)
  case Nil
  then show ?case by simp
next
  case (Cons x xs)
  obtain c db where st: "st = (c, db)" by (cases st)
  from Cons.prems have nx: "\<not> writes k x" and rest: "\<forall>y \<in> set xs. \<not> writes k y" by simp_all
  have "certs (fst (run (x # xs) st)) k = certs (fst (step x st)) k"
    using Cons.IH [OF rest, of "step x st"] by simp
  also have "\<dots> = certs (fst st) k"
    using step_certs_other [OF nx, of c db] st by simp
  finally show ?case .
qed

lemma Put_ok_certs: "Put c ctx k v db = (None, c1, db1) \<Longrightarrow> certs c1 k = Some v"
  by (auto simp: Put_def split: prod.splits sum.splits if_splits)

lemma Delete_result:
  "Delete c ctx k db =
     (case ExecContext (conn c) ctx (deleteQuery c) [AString k] db of
        (Inl err, db') \<Rightarrow> (Some err, c\<lparr>certs := (certs c)(k := None)\<rparr>, db')
      | (Inr r, db') \<Rightarrow> (None, c\<lparr>certs := (certs c)(k := None)\<rparr>, db'))"
proof (cases "certs c k")
  case None
  then have "(certs c)(k := None) = certs c" by (simp add: fun_upd_idem)
  then have "c\<lparr>certs := (certs c)(k := None)\<rparr> = c" by simp
  then have "Delete c ctx k db =
     (let c1 = c\<lparr>certs := (certs c)(k := None)\<rparr>
      in case ExecContext (conn c1) ctx (deleteQuery c1) [AString k] db of
           (Inl err, db') \<Rightarrow> (Some err, c1, db')
         | (Inr _, db') \<Rightarrow> (None, c1, db'))"
    using None by (simp add: Delete_def)
  then show ?thesis by (simp add: Let_def)
next
  case (Some v)
  then show ?thesis by (simp add: Delete_def Let_def)
qed

lemma Put_error_cache: "Put c ctx k v db = (Some e, c', db') \<Longrightarrow> c' = c"
  by (auto simp: Put_def split: prod.splits sum.splits if_splits)

lemma step_dom: "dom (certs (fst (step x (c, db)))) \<subseteq> dom (certs c) \<union> putKeys [x]"
proof (cases x)
  case (OpGet ctx k)
  then show ?thesis by (simp add: Get_cache)
next
  case (OpPut ctx k v)
  then show ?thesis by (auto simp: Put_def split: prod.splits sum.splits if_splits)
next
  case (OpDelete ctx k)
  then show ?thesis by (auto simp: Delete_result split: prod.splits sum.splits if_splits)
qed

lemma putKeys_Cons: "putKeys (x # xs) = putKeys [x] \<union> putKeys xs"
  by (cases x) simp_all

lemma run_dom: "dom (certs (fst (run xs st))) \<subseteq> dom (certs (fst st)) \<union> putKeys xs"
proof (induction xs arbitrary: st)
  case Nil
  then show ?case by simp
next
  case (Cons x xs)
  obtain c db where st: "st = (c, db)" by (cases st)
  have "dom (certs (fst (run (x # xs) st))) \<subseteq> dom (certs (fst (step x st))) \<union> putKeys xs"
    using Cons.IH [of "step x st"] by simp
  also have "\<dots> \<subseteq> (dom (certs (fst st)) \<union> putKeys [x]) \<union> putKeys xs"
    using step_dom [of x c db] st by auto
  also have "\<dots> = dom (certs (fst st)) \<union> putKeys (x # xs)"
    using putKeys_Cons [of x xs] by auto
  finally show ?case .
qed

lemma New_certs: "New cn t db = (Inr c0, db0) \<Longrightarrow> certs c0 = Map.empty"
  by (auto simp: New_def split: if_splits prod.splits sum.splits)

section \<open>Facts about the table of \<open>pgDB\<close>\<close>


lemma filter_key_le1:
  "distinct (map fst rows) \<Longrightarrow> length (filter (\<lambda>r. fst r = k) rows) \<le> Suc 0"
proof (induction rows)
  case Nil
  then show ?case by simp
next
  case (Cons r rows)
  show ?case
  proof (cases "fst r = k")
    case True
    with Cons.prems have "k \<notin> fst ` set rows" by auto
    then have "filter (\<lambda>r. fst r = k) rows = []" by (auto simp: filter_empty_conv)
    with True show ?thesis by simp
  next
    case False
    with Cons show ?thesis by simp
  qed
qed

lemma rowsWith_zero:
  assumes "distinct (map fst rows)"
  shows "rowsWith k rows = 0 \<longleftrightarrow> k \<notin> fst ` set rows"
proof -
  let ?n = "length (filter (\<lambda>r. fst r = k) rows)"
  from filter_key_le1 [OF assms, of k] have "?n = 0 \<or> ?n = Suc 0" by arith
  then have "(of_nat ?n = (0 :: 64 word)) \<longleftrightarrow> ?n = 0" by auto
  also have "?n = 0 \<longleftrightarrow> k \<notin> fst ` set rows" by (auto simp: filter_empty_conv)
  finally show ?thesis by (simp add: rowsWith_def)
qed

lemma pgExec_update:
  "pgExec t (fmtUpdateQuery t) [AString k, ABytes v] (Some rows) =
     (Inr (Result (Inr (rowsWith k rows))),
      Some (map (\<lambda>r. if fst r = k then (k, v) else r) rows))"
  by (simp add: pgExec_def fmtUpdateQuery_def createQuery_def)

lemma pgExec_insert:
  "pgExec t (fmtInsertQuery t) [AString k, ABytes v] (Some rows) =
     (if rowsWith k rows = 0
      then (Inr (Result (Inr 1)), Some (rows @ [(k, v)]))
      else (Inl (ErrDriver ''duplicate key value violates unique constraint''), Some rows))"
  by (simp add: pgExec_def fmtInsertQuery_def fmtUpdateQuery_def createQuery_def)

lemma map_of_replace_other:
  "x \<noteq> k \<Longrightarrow> map_of (map (\<lambda>r. if fst r = k then (k, v) else r) rows) x = map_of rows x"
  by (induction rows) auto

lemma map_of_replace_key:
  "k \<in> fst ` set rows \<Longrightarrow> map_of (map (\<lambda>r. if fst r = k then (k, v) else r) rows) k = Some v"
  by (induction rows) auto

lemma map_of_replace:
  "k \<in> fst ` set rows \<Longrightarrow>
   map_of (map (\<lambda>r. if fst r = k then (k, v) else r) rows) = (map_of rows)(k \<mapsto> v)"
  by (rule ext) (simp add: map_of_replace_other map_of_replace_key)

lemma pg_Put:
  assumes "distinct (map fst rows)"
  shows "\<exists>rows'. Put (cacheOf (pgDB t) t m) Background k v (Some rows)
                    = (None, cacheOf (pgDB t) t (m(k \<mapsto> v)), Some rows')
                \<and> distinct (map fst rows') \<and> map_of rows' = (map_of rows)(k \<mapsto> v)"
proof (cases "k \<in> fst ` set rows")
  case True
  let ?rows' = "map (\<lambda>r. if fst r = k then (k, v) else r) rows"
  from True assms have nz: "rowsWith k rows \<noteq> 0" by (simp add: rowsWith_zero)
  have eq: "map fst ?rows' = map fst rows" by (induction rows) auto
  from assms have "distinct (map fst ?rows')" by (simp only: eq)
  moreover have "Put (cacheOf (pgDB t) t m) Background k v (Some rows)
                   = (None, cacheOf (pgDB t) t (m(k \<mapsto> v)), Some ?rows')"
    using nz by (simp add: Put_def cacheOf_def pgDB_def pgExec_update)
  ultimately show ?thesis using map_of_replace [OF True] by blast
next
  case False
  let ?rows' = "rows @ [(k, v)]"
  from False assms have z: "rowsWith k rows = 0" by (simp add: rowsWith_zero)
  have same: "map (\<lambda>r. if fst r = k then (k, v) else r) rows = rows"
    using False by (induction rows) auto
  from False assms have "distinct (map fst ?rows')" by auto
  moreover have "Put (cacheOf (pgDB t) t m) Background k v (Some rows)
                   = (None, cacheOf (pgDB t) t (m(k \<mapsto> v)), Some ?rows')"
    using z by (simp add: Put_def cacheOf_def pgDB_def pgExec_update pgExec_insert same)
  moreover have "map_of ?rows' = (map_of rows)(k \<mapsto> v)"
  proof -
    from False have "map_of rows k = None" by (simp add: map_of_eq_None_iff)
    then show ?thesis by (auto simp: fun_eq_iff map_add_def split: option.splits)
  qed
  ultimately show ?thesis by blast
qed

section \<open>Evaluation on concrete runs\<close>

lemmas run_defs =
  cacheOf_def pgDB_def pgExec_def pgQueryRow_def mockDB_def mockExec_def mockQueryRow_def
  fmtGetQuery_def fmtInsertQuery_def fmtUpdateQuery_def fmtDeleteQuery_def createQuery_def
  rowsWith_def Put_def Get_def Delete_def New_def traced_simps

section \<open>The claims\<close>

text \<open>
  C1. For a key \<open>k\<close> that is not in the in-memory map and has no row in the store, \<open>Get\<close> is
  to fetch by \<open>k\<close> and to return \<open>ErrCacheMiss\<close>, whatever rows the store holds under other
  keys. The code does not: the statement it issues is \<open>SELECT data FROM certs\<close>, with no
  argument, and it returns the payload of the row stored under another key. Here the
  table holds one row, under \<open>a.example\<close>, the map is empty, and \<open>Get\<close> is asked for
  \<open>b.example\<close>; the second part is the same with the row written by \<open>Put\<close> on this cache.
\<close>

theorem Get_miss_returns_other_row:
  "Get (cacheOf (traced (pgDB ''certs'')) ''certs'' Map.empty) Background ''b.example''
       (Some [(''a.example'', [1, 2, 3])], [])
     = (Inr [1, 2, 3], cacheOf (traced (pgDB ''certs'')) ''certs'' Map.empty,
        Some [(''a.example'', [1, 2, 3])], [CallQueryRowContext ''SELECT data FROM certs'' []])
   \<and> fst (Get (fst (snd (Put (cacheOf (pgDB ''certs'') ''certs'' Map.empty) Background
                              ''a.example'' [1, 2, 3] (Some []))))
             Background ''b.example''
             (snd (snd (Put (cacheOf (pgDB ''certs'') ''certs'' Map.empty) Background
                              ''a.example'' [1, 2, 3] (Some [])))))
     = Inr [1, 2, 3]"
  by (simp add: run_defs)

text \<open>
  C2. If \<open>Put(ctx, k, v)\<close> returns nil, then after any calls that are neither a \<open>Put\<close> nor a
  \<open>Delete\<close> of \<open>k\<close>, \<open>Get(ctx', k)\<close> returns \<open>v\<close> and no error, and leaves the cache and the
  database as they are (the value comes from the in-memory map).
\<close>

theorem Put_then_Get:
  assumes "Put c ctx k v db = (None, c1, db1)"
      and "\<forall>x \<in> set xs. \<not> writes k x"
      and "run xs (c1, db1) = (c2, db2)"
  shows "Get c2 ctx' k db2 = (Inr v, c2, db2)"
proof -
  have "certs c2 k = certs c1 k"
    using run_certs_other [OF assms(2), of "(c1, db1)"] assms(3) by simp
  with Put_ok_certs [OF assms(1)] show ?thesis by (simp add: Get_hit)
qed

theorem Put_then_Get_witness:
  "fst (Put (cacheOf (pgDB ''certs'') ''certs'' Map.empty) Background ''example.org'' [1, 2, 3]
          (Some [])) = None
   \<and> list_all (\<lambda>x. \<not> writes ''example.org'' x)
        [OpPut Background ''other.org'' [9], OpGet Background ''example.org'',
         OpDelete Background ''other.org'']
   \<and> fst (Get (fst (run [OpPut Background ''other.org'' [9], OpGet Background ''example.org'',
                          OpDelete Background ''other.org'']
                     (snd (Put (cacheOf (pgDB ''certs'') ''certs'' Map.empty) Background
                              ''example.org'' [1, 2, 3] (Some [])))))
             Background ''example.org''
             (snd (run [OpPut Background ''other.org'' [9], OpGet Background ''example.org'',
                        OpDelete Background ''other.org'']
                     (snd (Put (cacheOf (pgDB ''certs'') ''certs'' Map.empty) Background
                              ''example.org'' [1, 2, 3] (Some []))))))
     = Inr [1, 2, 3]"
proof -
  let ?c = "cacheOf (pgDB ''certs'') ''certs'' Map.empty"
  let ?p = "Put ?c Background ''example.org'' [1, 2, 3] (Some [])"
  let ?xs = "[OpPut Background ''other.org'' [9], OpGet Background ''example.org'',
              OpDelete Background ''other.org'']"
  have ok: "fst ?p = None" by (simp add: run_defs)
  then have p: "?p = (None, fst (snd ?p), snd (snd ?p))" by (simp add: prod_eq_iff)
  have w: "\<forall>x \<in> set ?xs. \<not> writes ''example.org'' x" by simp
  have r: "run ?xs (fst (snd ?p), snd (snd ?p))
             = (fst (run ?xs (snd ?p)), snd (run ?xs (snd ?p)))" by simp
  from Put_then_Get [OF p w r, of Background] ok show ?thesis by simp
qed

text \<open>
  C3, as amended. If \<open>Put\<close> returns an error, the cache is exactly as it was before the call.
  If \<open>Delete(ctx, k)\<close> returns an error, the in-memory map is the map before the call without
  the entry for \<open>k\<close>; every other entry is as it was.
\<close>

theorem failed_call_memory:
  "(Put c ctx k v db = (Some e, c', db') \<longrightarrow> c' = c) \<and>
   (Delete c ctx k db = (Some e, c', db') \<longrightarrow> c' = c\<lparr>certs := (certs c)(k := None)\<rparr>)"
proof (intro conjI impI)
  assume "Put c ctx k v db = (Some e, c', db')"
  then show "c' = c" by (rule Put_error_cache)
next
  assume "Delete c ctx k db = (Some e, c', db')"
  then show "c' = c\<lparr>certs := (certs c)(k := None)\<rparr>"
    by (auto simp: Delete_result split: prod.splits sum.splits)
qed

theorem failed_call_memory_witness:
  "Put (cacheOf (pgDB ''certs'') ''certs'' [''a.example'' \<mapsto> [1, 2, 3]]) Canceled
       ''a.example'' [4] (Some [(''a.example'', [1, 2, 3])])
     = (Some (ErrDriver ''context canceled''),
        cacheOf (pgDB ''certs'') ''certs'' [''a.example'' \<mapsto> [1, 2, 3]],
        Some [(''a.example'', [1, 2, 3])])
   \<and> Delete (cacheOf (pgDB ''certs'') ''certs'' [''a.example'' \<mapsto> [1, 2, 3]]) Canceled
         ''a.example'' (Some [(''a.example'', [1, 2, 3])])
     = (Some (ErrDriver ''context canceled''),
        (cacheOf (pgDB ''certs'') ''certs'' [''a.example'' \<mapsto> [1, 2, 3]])
          \<lparr>certs := (certs (cacheOf (pgDB ''certs'') ''certs'' [''a.example'' \<mapsto> [1, 2, 3]]))
                      (''a.example'' := None)\<rparr>,
        Some [(''a.example'', [1, 2, 3])])"
proof -
  let ?c = "cacheOf (pgDB ''certs'') ''certs'' [''a.example'' \<mapsto> [1, 2, 3]]"
  let ?db = "Some [(''a.example'', [1, 2, 3 :: 8 word])]"
  let ?e = "ErrDriver ''context canceled''"
  let ?p = "Put ?c Canceled ''a.example'' [4] ?db"
  let ?d = "Delete ?c Canceled ''a.example'' ?db"
  have p: "?p = (Some ?e, fst (snd ?p), ?db)" by (simp add: run_defs)
  have d: "?d = (Some ?e, fst (snd ?d), ?db)" by (simp add: run_defs Let_def)
  from failed_call_memory [of ?c Canceled "''a.example''" "[4]" ?db ?e "fst (snd ?p)" ?db] p
  have 1: "fst (snd ?p) = ?c" by simp
  from failed_call_memory [of ?c Canceled "''a.example''" _ ?db ?e "fst (snd ?d)" ?db] d
  have 2: "fst (snd ?d) = ?c\<lparr>certs := (certs ?c)(''a.example'' := None)\<rparr>" by simp
  from p 1 have "?p = (Some ?e, ?c, ?db)" by simp
  moreover from d 2 have "?d = (Some ?e, ?c\<lparr>certs := (certs ?c)(''a.example'' := None)\<rparr>, ?db)"
    by simp
  ultimately show ?thesis by simp
qed

text \<open>
  C3, as stated, fails for \<open>Delete\<close>: the entry for \<open>a.example\<close> is in the map, the context
  is cancelled so that the delete statement fails, \<open>Delete\<close> returns that error, and the
  entry is no longer in the map.
\<close>

theorem Delete_failure_drops_entry:
  "certs (cacheOf (pgDB ''certs'') ''certs'' [''a.example'' \<mapsto> [1, 2, 3]]) ''a.example''
     = Some [1, 2, 3]
   \<and> fst (Delete (cacheOf (pgDB ''certs'') ''certs'' [''a.example'' \<mapsto> [1, 2, 3]]) Canceled
             ''a.example'' (Some [(''a.example'', [1, 2, 3])]))
     = Some (ErrDriver ''context canceled'')
   \<and> certs (fst (snd (Delete (cacheOf (pgDB ''certs'') ''certs'' [''a.example'' \<mapsto> [1, 2, 3]])
                          Canceled ''a.example'' (Some [(''a.example'', [1, 2, 3])]))))
       ''a.example''
     = None"
  by (simp add: run_defs Let_def)

text \<open>
  C4. Whichever store step of \<open>Put(ctx, key, data)\<close> fails (the update statement, the
  reading of \<open>RowsAffected\<close>, or the insert statement that follows an update of no row),
  \<open>Put\<close> returns the error of that step and the cache, with its in-memory map, is the one
  before the call. Whenever \<open>Put\<close> returns an error, the in-memory map is unchanged.
\<close>

theorem Put_store_failure:
  "(ExecContext (conn c) ctx (updateQuery c) [AString key, ABytes data] db = (Inl e, db1)
      \<longrightarrow> Put c ctx key data db = (Some e, c, db1)) \<and>
   (ExecContext (conn c) ctx (updateQuery c) [AString key, ABytes data] db = (Inr r, db1)
      \<and> RowsAffected r = Inl e
      \<longrightarrow> Put c ctx key data db = (Some e, c, db1)) \<and>
   (ExecContext (conn c) ctx (updateQuery c) [AString key, ABytes data] db = (Inr r, db1)
      \<and> RowsAffected r = Inr 0
      \<and> ExecContext (conn c) ctx (insertQuery c) [AString key, ABytes data] db1 = (Inl e, db2)
      \<longrightarrow> Put c ctx key data db = (Some e, c, db2)) \<and>
   (Put c ctx key data db = (Some e, c', db') \<longrightarrow> certs c' = certs c)"
  by (auto simp: Put_def split: prod.splits sum.splits if_splits)

theorem Put_store_failure_witness:
  "ExecContext (conn (cacheOf mockDB ''certs'' Map.empty)) Background
       (updateQuery (cacheOf mockDB ''certs'' Map.empty)) [AString ''a.example'', ABytes [1]]
       [ReplyResult (Inl (ErrDriver ''connection refused''))]
     = (Inl (ErrDriver ''connection refused''), [])
   \<and> Put (cacheOf mockDB ''certs'' Map.empty) Background ''a.example'' [1]
         [ReplyResult (Inl (ErrDriver ''connection refused''))]
     = (Some (ErrDriver ''connection refused''), cacheOf mockDB ''certs'' Map.empty, [])
   \<and> ExecContext (conn (cacheOf mockDB ''certs'' Map.empty)) Background
       (updateQuery (cacheOf mockDB ''certs'' Map.empty)) [AString ''a.example'', ABytes [1]]
       [ReplyResult (Inr (Result (Inl (ErrDriver ''RowsAffected is not supported''))))]
     = (Inr (Result (Inl (ErrDriver ''RowsAffected is not supported''))), [])
   \<and> Put (cacheOf mockDB ''certs'' Map.empty) Background ''a.example'' [1]
         [ReplyResult (Inr (Result (Inl (ErrDriver ''RowsAffected is not supported''))))]
     = (Some (ErrDriver ''RowsAffected is not supported''), cacheOf mockDB ''certs'' Map.empty, [])
   \<and> ExecContext (conn (cacheOf mockDB ''certs'' Map.empty)) Background
       (updateQuery (cacheOf mockDB ''certs'' Map.empty)) [AString ''a.example'', ABytes [1]]
       [ReplyResult (Inr (Result (Inr 0))), ReplyResult (Inl (ErrDriver ''disk full''))]
     = (Inr (Result (Inr 0)), [ReplyResult (Inl (ErrDriver ''disk full''))])
   \<and> ExecContext (conn (cacheOf mockDB ''certs'' Map.empty)) Background
       (insertQuery (cacheOf mockDB ''certs'' Map.empty)) [AString ''a.example'', ABytes [1]]
       [ReplyResult (Inl (ErrDriver ''disk full''))]
     = (Inl (ErrDriver ''disk full''), [])
   \<and> Put (cacheOf mockDB ''certs'' Map.empty) Background ''a.example'' [1]
         [ReplyResult (Inr (Result (Inr 0))), ReplyResult (Inl (ErrDriver ''disk full''))]
     = (Some (ErrDriver ''disk full''), cacheOf mockDB ''certs'' Map.empty, [])
   \<and> certs (fst (snd (Put (cacheOf mockDB ''certs'' Map.empty) Background ''a.example'' [1]
         [ReplyResult (Inr (Result (Inr 0))), ReplyResult (Inl (ErrDriver ''disk full''))])))
     = certs (cacheOf mockDB ''certs'' Map.empty)"
proof -
  let ?c = "cacheOf mockDB ''certs'' Map.empty"
  let ?args = "[AString ''a.example'', ABytes [1]]"
  let ?e1 = "ErrDriver ''connection refused''"
  let ?e2 = "ErrDriver ''RowsAffected is not supported''"
  let ?e3 = "ErrDriver ''disk full''"
  have u1: "ExecContext (conn ?c) Background (updateQuery ?c) ?args [ReplyResult (Inl ?e1)]
              = (Inl ?e1, [])"
    by (simp add: cacheOf_def mockDB_def mockExec_def)
  have u2: "ExecContext (conn ?c) Background (updateQuery ?c) ?args
              [ReplyResult (Inr (Result (Inl ?e2)))] = (Inr (Result (Inl ?e2)), [])"
    by (simp add: cacheOf_def mockDB_def mockExec_def)
  have u3: "ExecContext (conn ?c) Background (updateQuery ?c) ?args
              [ReplyResult (Inr (Result (Inr 0))), ReplyResult (Inl ?e3)]
              = (Inr (Result (Inr 0)), [ReplyResult (Inl ?e3)])"
    by (simp add: cacheOf_def mockDB_def mockExec_def)
  have i3: "ExecContext (conn ?c) Background (insertQuery ?c) ?args [ReplyResult (Inl ?e3)]
              = (Inl ?e3, [])"
    by (simp add: cacheOf_def mockDB_def mockExec_def)
  have r2: "RowsAffected (Result (Inl ?e2)) = Inl ?e2" by simp
  have r3: "RowsAffected (Result (Inr 0)) = Inr 0" by simp
  note t1 = Put_store_failure [of ?c Background "''a.example''" "[1]"
      "[ReplyResult (Inl ?e1)]" ?e1 "[]"]
  note t2 = Put_store_failure [of ?c Background "''a.example''" "[1]"
      "[ReplyResult (Inr (Result (Inl ?e2)))]" ?e2 "[]" "Result (Inl ?e2)"]
  note t3 = Put_store_failure [of ?c Background "''a.example''" "[1]"
      "[ReplyResult (Inr (Result (Inr 0))), ReplyResult (Inl ?e3)]" ?e3
      "[ReplyResult (Inl ?e3)]" "Result (Inr 0)" "[]" ?c "[]"]
  from t1 u1 have p1: "Put ?c Background ''a.example'' [1] [ReplyResult (Inl ?e1)]
       = (Some ?e1, ?c, [])" by blast
  from t2 u2 r2 have p2: "Put ?c Background ''a.example'' [1]
       [ReplyResult (Inr (Result (Inl ?e2)))] = (Some ?e2, ?c, [])" by blast
  from t3 u3 r3 i3 have p3: "Put ?c Background ''a.example'' [1]
       [ReplyResult (Inr (Result (Inr 0))), ReplyResult (Inl ?e3)] = (Some ?e3, ?c, [])" by blast
  from p3 have p4: "certs (fst (snd (Put ?c Background ''a.example'' [1]
       [ReplyResult (Inr (Result (Inr 0))), ReplyResult (Inl ?e3)]))) = certs ?c" by simp
  from u1 p1 u2 p2 u3 i3 p3 p4 show ?thesis by blast
qed

text \<open>
  C5. \<open>Put(ctx, key, data)\<close> first issues the update statement with \<open>key\<close> and \<open>data\<close>. It then
  issues the insert statement with \<open>key\<close> and \<open>data\<close> exactly when the update succeeded and
  reported zero rows affected, and issues nothing else: the calls that the database
  receives are the update alone, or the update followed by the insert.
\<close>

theorem Put_upsert_calls:
  assumes "conn c = traced d"
  shows "snd (snd (snd (Put c ctx key data (s, log)))) =
           log @ CallExecContext (updateQuery c) [AString key, ABytes data] #
             (if (case fst (ExecContext d ctx (updateQuery c) [AString key, ABytes data] s) of
                    Inl err \<Rightarrow> False
                  | Inr result \<Rightarrow> RowsAffected result = Inr 0)
              then [CallExecContext (insertQuery c) [AString key, ABytes data]]
              else [])"
  using assms by (simp add: Put_def traced_simps split: prod.splits sum.splits)

theorem Put_upsert_calls_witness:
  "conn (cacheOf (traced (pgDB ''certs'')) ''certs'' Map.empty) = traced (pgDB ''certs'')
   \<and> snd (snd (snd (Put (cacheOf (traced (pgDB ''certs'')) ''certs'' Map.empty) Background
                        ''a.example'' [1, 2, 3] (Some [], []))))
     = [CallExecContext ''UPDATE certs SET data = $2 WHERE key = $1''
          [AString ''a.example'', ABytes [1, 2, 3]],
        CallExecContext ''INSERT INTO certs (key, data) VALUES($1, $2)''
          [AString ''a.example'', ABytes [1, 2, 3]]]
   \<and> snd (snd (snd (Put (cacheOf (traced (pgDB ''certs'')) ''certs'' Map.empty) Background
                        ''a.example'' [1, 2, 3] (Some [(''a.example'', [7])], []))))
     = [CallExecContext ''UPDATE certs SET data = $2 WHERE key = $1''
          [AString ''a.example'', ABytes [1, 2, 3]]]"
proof -
  let ?c = "cacheOf (traced (pgDB ''certs'')) ''certs'' Map.empty"
  have cn: "conn ?c = traced (pgDB ''certs'')" by (simp add: cacheOf_def)
  have q: "updateQuery ?c = ''UPDATE certs SET data = $2 WHERE key = $1''"
          "insertQuery ?c = ''INSERT INTO certs (key, data) VALUES($1, $2)''"
    by (simp_all add: cacheOf_def fmtUpdateQuery_def fmtInsertQuery_def)
  have z: "fst (ExecContext (pgDB ''certs'') Background (updateQuery ?c)
                  [AString ''a.example'', ABytes [1, 2, 3]] (Some []))
             = Inr (Result (Inr 0))"
    by (simp add: run_defs)
  have o: "fst (ExecContext (pgDB ''certs'') Background (updateQuery ?c)
                  [AString ''a.example'', ABytes [1, 2, 3]] (Some [(''a.example'', [7])]))
             = Inr (Result (Inr 1))"
    by (simp add: run_defs)
  from Put_upsert_calls [OF cn, of Background "''a.example''" "[1, 2, 3]" "Some []" "[]"]
       Put_upsert_calls [OF cn, of Background "''a.example''" "[1, 2, 3]"
         "Some [(''a.example'', [7])]" "[]"]
       cn q z o
  show ?thesis by simp
qed

text \<open>
  C6. If \<open>Put(ctx, k, v1)\<close> and then \<open>Put(ctx, k, v2)\<close> both return nil, a following
  \<open>Get(ctx, k)\<close> returns \<open>v2\<close> and no error, and the in-memory map is the one that the
  second \<open>Put\<close> alone would have left: the map before the two calls with \<open>k\<close> bound to \<open>v2\<close>.
  On the table of \<open>pgDB\<close> with at most one row per key, the two calls return nil and the
  table then binds \<open>k\<close> to \<open>v2\<close> and every other key as before.
\<close>

theorem Put_Put_Get:
  "(Put c ctx1 k v1 db = (None, c1, db1) \<and> Put c1 ctx2 k v2 db1' = (None, c2, db2)
      \<longrightarrow> Get c2 ctx3 k db2' = (Inr v2, c2, db2') \<and> certs c2 = (certs c)(k \<mapsto> v2)) \<and>
   (distinct (map fst rows) \<longrightarrow>
      (\<exists>rows1 rows2.
         Put (cacheOf (pgDB t) t m) Background k v1 (Some rows)
           = (None, cacheOf (pgDB t) t (m(k \<mapsto> v1)), Some rows1)
       \<and> Put (cacheOf (pgDB t) t (m(k \<mapsto> v1))) Background k v2 (Some rows1)
           = (None, cacheOf (pgDB t) t (m(k \<mapsto> v2)), Some rows2)
       \<and> map_of rows2 = (map_of rows)(k \<mapsto> v2)))"
proof (intro conjI impI)
  assume a: "Put c ctx1 k v1 db = (None, c1, db1) \<and> Put c1 ctx2 k v2 db1' = (None, c2, db2)"
  have 1: "certs c1 = (certs c)(k \<mapsto> v1)"
    using a by (auto simp: Put_def split: prod.splits sum.splits if_splits)
  have 2: "certs c2 = (certs c1)(k \<mapsto> v2)"
    using a by (auto simp: Put_def split: prod.splits sum.splits if_splits)
  from 1 2 show "certs c2 = (certs c)(k \<mapsto> v2)" by simp
  then show "Get c2 ctx3 k db2' = (Inr v2, c2, db2')" by (simp add: Get_hit)
next
  assume d: "distinct (map fst rows)"
  from pg_Put [OF d, of t m k v1] obtain rows1 where
    p1: "Put (cacheOf (pgDB t) t m) Background k v1 (Some rows)
           = (None, cacheOf (pgDB t) t (m(k \<mapsto> v1)), Some rows1)"
    and d1: "distinct (map fst rows1)" and m1: "map_of rows1 = (map_of rows)(k \<mapsto> v1)"
    by blast
  from pg_Put [OF d1, of t "m(k \<mapsto> v1)" k v2] obtain rows2 where
    p2: "Put (cacheOf (pgDB t) t (m(k \<mapsto> v1))) Background k v2 (Some rows1)
           = (None, cacheOf (pgDB t) t ((m(k \<mapsto> v1))(k \<mapsto> v2)), Some rows2)"
    and m2: "map_of rows2 = (map_of rows1)(k \<mapsto> v2)"
    by blast
  from p2 have p2': "Put (cacheOf (pgDB t) t (m(k \<mapsto> v1))) Background k v2 (Some rows1)
           = (None, cacheOf (pgDB t) t (m(k \<mapsto> v2)), Some rows2)" by simp
  from m1 m2 have "map_of rows2 = (map_of rows)(k \<mapsto> v2)" by simp
  with p1 p2' show "\<exists>rows1 rows2.
         Put (cacheOf (pgDB t) t m) Background k v1 (Some rows)
           = (None, cacheOf (pgDB t) t (m(k \<mapsto> v1)), Some rows1)
       \<and> Put (cacheOf (pgDB t) t (m(k \<mapsto> v1))) Background k v2 (Some rows1)
           = (None, cacheOf (pgDB t) t (m(k \<mapsto> v2)), Some rows2)
       \<and> map_of rows2 = (map_of rows)(k \<mapsto> v2)" by blast
qed

theorem Put_Put_Get_witness:
  "Put (cacheOf (pgDB ''certs'') ''certs'' Map.empty) Background ''a.example'' [1] (Some [])
     = (None, cacheOf (pgDB ''certs'') ''certs'' [''a.example'' \<mapsto> [1]],
        Some [(''a.example'', [1])])
   \<and> fst (Put (cacheOf (pgDB ''certs'') ''certs'' [''a.example'' \<mapsto> [1]]) Background
             ''a.example'' [2] (Some [(''a.example'', [1])])) = None
   \<and> snd (snd (Put (cacheOf (pgDB ''certs'') ''certs'' [''a.example'' \<mapsto> [1]]) Background
             ''a.example'' [2] (Some [(''a.example'', [1])]))) = Some [(''a.example'', [2])]
   \<and> fst (Get (fst (snd (Put (cacheOf (pgDB ''certs'') ''certs'' [''a.example'' \<mapsto> [1]])
                            Background ''a.example'' [2] (Some [(''a.example'', [1])]))))
             Background ''a.example'' (Some [(''a.example'', [2])]))
     = Inr [2]
   \<and> distinct (map fst [(''b.example'', [7 :: 8 word])])
   \<and> (\<exists>rows1 rows2.
         Put (cacheOf (pgDB ''certs'') ''certs'' Map.empty) Background ''a.example'' [1]
             (Some [(''b.example'', [7])])
           = (None, cacheOf (pgDB ''certs'') ''certs'' [''a.example'' \<mapsto> [1]], Some rows1)
       \<and> Put (cacheOf (pgDB ''certs'') ''certs'' [''a.example'' \<mapsto> [1]]) Background
             ''a.example'' [2] (Some rows1)
           = (None, cacheOf (pgDB ''certs'') ''certs'' [''a.example'' \<mapsto> [2]], Some rows2)
       \<and> map_of rows2 = (map_of [(''b.example'', [7])])(''a.example'' \<mapsto> [2]))"
proof -
  let ?c = "cacheOf (pgDB ''certs'') ''certs'' Map.empty"
  let ?c1 = "cacheOf (pgDB ''certs'') ''certs'' [''a.example'' \<mapsto> [1]]"
  let ?q = "Put ?c1 Background ''a.example'' [2] (Some [(''a.example'', [1])])"
  have p: "Put ?c Background ''a.example'' [1] (Some [])
             = (None, ?c1, Some [(''a.example'', [1])])"
    by (simp add: run_defs)
  have q1: "fst ?q = None" by (simp add: run_defs)
  have q2: "snd (snd ?q) = Some [(''a.example'', [2])]" by (simp add: run_defs)
  from q1 q2 have q: "?q = (None, fst (snd ?q), Some [(''a.example'', [2])])"
    by (simp add: prod_eq_iff)
  have d: "distinct (map fst [(''b.example'', [7 :: 8 word])])" by simp
  note t = Put_Put_Get [of ?c Background "''a.example''" "[1]" "Some []" ?c1
      "Some [(''a.example'', [1])]" Background "[2]" "Some [(''a.example'', [1])]"
      "fst (snd ?q)" "Some [(''a.example'', [2])]" Background "Some [(''a.example'', [2])]"
      "[(''b.example'', [7])]" "''certs''" Map.empty]
  from t p q have g: "Get (fst (snd ?q)) Background ''a.example'' (Some [(''a.example'', [2])])
      = (Inr [2], fst (snd ?q), Some [(''a.example'', [2])])" by blast
  from t d have e: "\<exists>rows1 rows2.
         Put ?c Background ''a.example'' [1] (Some [(''b.example'', [7])])
           = (None, ?c1, Some rows1)
       \<and> Put ?c1 Background ''a.example'' [2] (Some rows1)
           = (None, cacheOf (pgDB ''certs'') ''certs'' [''a.example'' \<mapsto> [2]], Some rows2)
       \<and> map_of rows2 = (map_of [(''b.example'', [7])])(''a.example'' \<mapsto> [2])" by blast
  from g have g': "fst (Get (fst (snd ?q)) Background ''a.example''
      (Some [(''a.example'', [2])])) = Inr [2]" by simp
  from p q1 q2 g' d e show ?thesis by blast
qed

text \<open>
  C7. The in-memory map of a cache made by \<open>New\<close> holds, after any run of calls, entries
  only for keys that were the target of a \<open>Put\<close> in that run. \<open>Get\<close> leaves the cache as
  it is, also when it goes to the store and finds a row.
\<close>

theorem certs_only_Put_keys:
  "(New cn t db = (Inr c0, db0) \<and> run xs (c0, db0) = (c, db') \<longrightarrow> dom (certs c) \<subseteq> putKeys xs) \<and>
   (Get c1 ctx k db1 = (r, c2, db2) \<longrightarrow> c2 = c1)"
proof (intro conjI impI)
  assume a: "New cn t db = (Inr c0, db0) \<and> run xs (c0, db0) = (c, db')"
  then have "certs c0 = Map.empty" using New_certs [of cn t db c0 db0] by simp
  with run_dom [of xs "(c0, db0)"] a show "dom (certs c) \<subseteq> putKeys xs" by simp
next
  assume "Get c1 ctx k db1 = (r, c2, db2)"
  with Get_cache [of c1 ctx k db1] show "c2 = c1" by simp
qed

theorem certs_only_Put_keys_witness:
  "New (pgDB ''certs'') ''certs'' None
     = (Inr (cacheOf (pgDB ''certs'') ''certs'' Map.empty), Some [])
   \<and> dom (certs (fst (run [OpPut Background ''a.example'' [1], OpGet Background ''b.example'',
                             OpDelete Background ''c.example'', OpPut Canceled ''d.example'' [4]]
                        (cacheOf (pgDB ''certs'') ''certs'' Map.empty, Some []))))
       \<subseteq> putKeys [OpPut Background ''a.example'' [1], OpGet Background ''b.example'',
                    OpDelete Background ''c.example'', OpPut Canceled ''d.example'' [4]]
   \<and> Get (cacheOf (pgDB ''certs'') ''certs'' Map.empty) Background ''b.example''
         (Some [(''b.example'', [2])])
     = (Inr [2], cacheOf (pgDB ''certs'') ''certs'' Map.empty, Some [(''b.example'', [2])])"
proof -
  let ?c = "cacheOf (pgDB ''certs'') ''certs'' Map.empty"
  let ?xs = "[OpPut Background ''a.example'' [1], OpGet Background ''b.example'',
              OpDelete Background ''c.example'', OpPut Canceled ''d.example'' [4]]"
  let ?g = "Get ?c Background ''b.example'' (Some [(''b.example'', [2])])"
  have n: "New (pgDB ''certs'') ''certs'' None = (Inr ?c, Some [])"
    by (simp add: run_defs TrimSpace_def spaceRunes_def)
  have r: "run ?xs (?c, Some []) = (fst (run ?xs (?c, Some [])), snd (run ?xs (?c, Some [])))"
    by simp
  have g: "?g = (Inr [2], fst (snd ?g), Some [(''b.example'', [2])])"
    by (simp add: run_defs)
  note t = certs_only_Put_keys [of "pgDB ''certs''" "''certs''" None ?c "Some []" ?xs
      "fst (run ?xs (?c, Some []))" "snd (run ?xs (?c, Some []))"
      ?c Background "''b.example''" "Some [(''b.example'', [2])]" "Inr [2]" "fst (snd ?g)"
      "Some [(''b.example'', [2])]"]
  from t n r have 1: "dom (certs (fst (run ?xs (?c, Some [])))) \<subseteq> putKeys ?xs" by blast
  from t g have "fst (snd ?g) = ?c" by blast
  with g have 2: "?g = (Inr [2], ?c, Some [(''b.example'', [2])])" by simp
  from n 1 2 show ?thesis by blast
qed

text \<open>
  C8. The store fetch of \<open>Get\<close> does not depend on the key. For two keys that are not in
  the in-memory map, \<open>Get\<close> gives the same result on the same database; the one call that
  the database receives is the query of \<open>getQuery\<close> with no argument; and the \<open>getQuery\<close> of
  a cache made by \<open>New\<close> is \<open>SELECT data FROM\<close> and the table name, with no placeholder.
\<close>

theorem Get_fetch_ignores_key:
  "(certs c k1 = None \<and> certs c k2 = None \<longrightarrow> Get c ctx k1 db = Get c ctx k2 db) \<and>
   (certs ct k = None \<and> conn ct = traced d \<longrightarrow>
      snd (snd (snd (Get ct ctx' k (s, log)))) = log @ [CallQueryRowContext (getQuery ct) []]) \<and>
   (New cn t db0 = (Inr c0, db1) \<longrightarrow> getQuery c0 = ''SELECT data FROM '' @ t)"
  by (auto simp: Get_def New_def traced_simps fmtGetQuery_def split: prod.splits sum.splits if_splits)

theorem Get_fetch_ignores_key_witness:
  "certs (cacheOf (pgDB ''certs'') ''certs'' Map.empty) ''a.example'' = None
   \<and> certs (cacheOf (pgDB ''certs'') ''certs'' Map.empty) ''b.example'' = None
   \<and> Get (cacheOf (pgDB ''certs'') ''certs'' Map.empty) Background ''a.example''
         (Some [(''a.example'', [1, 2, 3])])
     = Get (cacheOf (pgDB ''certs'') ''certs'' Map.empty) Background ''b.example''
         (Some [(''a.example'', [1, 2, 3])])
   \<and> certs (cacheOf (traced (pgDB ''certs'')) ''certs'' Map.empty) ''b.example'' = None
   \<and> conn (cacheOf (traced (pgDB ''certs'')) ''certs'' Map.empty) = traced (pgDB ''certs'')
   \<and> snd (snd (snd (Get (cacheOf (traced (pgDB ''certs'')) ''certs'' Map.empty) Background
                        ''b.example'' (Some [(''a.example'', [1, 2, 3])], []))))
     = [CallQueryRowContext ''SELECT data FROM certs'' []]
   \<and> New (pgDB ''certs'') ''certs'' None
     = (Inr (cacheOf (pgDB ''certs'') ''certs'' Map.empty), Some [])
   \<and> getQuery (cacheOf (pgDB ''certs'') ''certs'' Map.empty) = ''SELECT data FROM certs''"
proof -
  let ?c = "cacheOf (pgDB ''certs'') ''certs'' Map.empty"
  let ?ct = "cacheOf (traced (pgDB ''certs'')) ''certs'' Map.empty"
  let ?db = "Some [(''a.example'', [1, 2, 3 :: 8 word])]"
  have m: "certs ?c ''a.example'' = None" "certs ?c ''b.example'' = None"
          "certs ?ct ''b.example'' = None"
    by (simp_all add: cacheOf_def)
  have cn: "conn ?ct = traced (pgDB ''certs'')" by (simp add: cacheOf_def)
  have q: "getQuery ?ct = ''SELECT data FROM certs''"
    by (simp add: cacheOf_def fmtGetQuery_def)
  have n: "New (pgDB ''certs'') ''certs'' None = (Inr ?c, Some [])"
    by (simp add: run_defs TrimSpace_def spaceRunes_def)
  note t1 = Get_fetch_ignores_key [of ?c "''a.example''" "''b.example''" Background ?db
      ?ct "''b.example''" "pgDB ''certs''" Background ?db "[]"
      "pgDB ''certs''" "''certs''" None ?c "Some []"]
  from t1 m have 1: "Get ?c Background ''a.example'' ?db = Get ?c Background ''b.example'' ?db"
    by blast
  from t1 m cn have "snd (snd (snd (Get ?ct Background ''b.example'' (?db, []))))
      = [] @ [CallQueryRowContext (getQuery ?ct) []]" by blast
  with q have 2: "snd (snd (snd (Get ?ct Background ''b.example'' (?db, []))))
      = [CallQueryRowContext ''SELECT data FROM certs'' []]" by simp
  from t1 n have "getQuery ?c = ''SELECT data FROM '' @ ''certs''" by blast
  then have 3: "getQuery ?c = ''SELECT data FROM certs''" by simp
  from m cn 1 2 n 3 show ?thesis by blast
qed

text \<open>
  C9. If the delete statement of \<open>Delete(ctx, k)\<close> succeeds, \<open>Delete\<close> returns nil, whatever
  number of rows the store reports and whether or not \<open>k\<close> was in the in-memory map, and
  afterwards \<open>k\<close> is not in the in-memory map; the other entries are as before.
\<close>

theorem Delete_store_ok:
  assumes "ExecContext (conn c) ctx (deleteQuery c) [AString k] db = (Inr r, db')"
  shows "Delete c ctx k db = (None, c\<lparr>certs := (certs c)(k := None)\<rparr>, db')"
  using assms by (simp add: Delete_result)

theorem Delete_store_ok_witness:
  "ExecContext (conn (cacheOf (pgDB ''certs'') ''certs'' Map.empty)) Background
       (deleteQuery (cacheOf (pgDB ''certs'') ''certs'' Map.empty)) [AString ''a.example'']
       (Some [])
     = (Inr (Result (Inr 0)), Some [])
   \<and> certs (cacheOf (pgDB ''certs'') ''certs'' Map.empty) ''a.example'' = None
   \<and> Delete (cacheOf (pgDB ''certs'') ''certs'' Map.empty) Background ''a.example'' (Some [])
     = (None,
        (cacheOf (pgDB ''certs'') ''certs'' Map.empty)
          \<lparr>certs := (certs (cacheOf (pgDB ''certs'') ''certs'' Map.empty))(''a.example'' := None)\<rparr>,
        Some [])"
proof -
  let ?c = "cacheOf (pgDB ''certs'') ''certs'' Map.empty"
  have x: "ExecContext (conn ?c) Background (deleteQuery ?c) [AString ''a.example''] (Some [])
             = (Inr (Result (Inr 0)), Some [])"
    by (simp add: run_defs)
  have m: "certs ?c ''a.example'' = None" by (simp add: cacheOf_def)
  from Delete_store_ok [OF x] x m show ?thesis by blast
qed

text \<open>
  C10. For a table name that consists only of white space (the empty name included),
  \<open>New\<close> returns the error \<open>tableName must not be empty\<close> and no cache, and the database
  receives no call. For any other table name, \<open>New\<close> issues the create-table statement;
  if that fails, \<open>New\<close> returns its error and no cache, and if it succeeds, \<open>New\<close> returns
  the cache with an empty in-memory map and the four statements for that table.
\<close>

theorem New_blank_or_bootstrap:
  "(blank tableName \<longrightarrow>
      New cn tableName db = (Inl (ErrorString ''tableName must not be empty''), db)) \<and>
   (blank tableName \<longrightarrow> snd (snd (New (traced d) tableName (s, log))) = log) \<and>
   (\<not> blank tableName \<and> Exec cn (createQuery tableName) [] db = (Inl err, db')
      \<longrightarrow> New cn tableName db = (Inl err, db')) \<and>
   (\<not> blank tableName \<and> Exec cn (createQuery tableName) [] db = (Inr r, db')
      \<longrightarrow> New cn tableName db = (Inr (cacheOf cn tableName Map.empty), db')) \<and>
   (\<not> blank tableName
      \<longrightarrow> snd (snd (New (traced d) tableName (s, log))) = log @ [CallExec (createQuery tableName) []])"
  by (auto simp: New_def cacheOf_def TrimSpace_blank traced_simps split: prod.splits sum.splits)

theorem New_blank_or_bootstrap_witness:
  "blank ''''
   \<and> New (pgDB '''') '''' None = (Inl (ErrorString ''tableName must not be empty''), None)
   \<and> blank ''   ''
   \<and> New (pgDB ''   '') ''   '' None = (Inl (ErrorString ''tableName must not be empty''), None)
   \<and> snd (snd (New (traced (pgDB ''   '')) ''   '' (None, []))) = []
   \<and> \<not> blank ''certs''
   \<and> Exec mockDB (createQuery ''certs'') [] [ReplyResult (Inl (ErrDriver ''connection refused''))]
     = (Inl (ErrDriver ''connection refused''), [])
   \<and> New mockDB ''certs'' [ReplyResult (Inl (ErrDriver ''connection refused''))]
     = (Inl (ErrDriver ''connection refused''), [])
   \<and> Exec (pgDB ''certs'') (createQuery ''certs'') [] None = (Inr (Result (Inr 0)), Some [])
   \<and> New (pgDB ''certs'') ''certs'' None
     = (Inr (cacheOf (pgDB ''certs'') ''certs'' Map.empty), Some [])
   \<and> snd (snd (New (traced (pgDB ''certs'')) ''certs'' (None, [])))
     = [CallExec (createQuery ''certs'') []]"
proof -
  let ?e = "ErrDriver ''connection refused''"
  have b0: "blank ''''" by (simp add: blank_iff_trimRunes)
  have b3: "blank ''   ''" by (simp add: blank_iff_trimRunes spaceRunes_def)
  have nb: "\<not> blank ''certs''" by (simp add: blank_iff_trimRunes spaceRunes_def)
  have x1: "Exec mockDB (createQuery ''certs'') [] [ReplyResult (Inl ?e)] = (Inl ?e, [])"
    by (simp add: mockDB_def mockExec_def)
  have x2: "Exec (pgDB ''certs'') (createQuery ''certs'') [] None
              = (Inr (Result (Inr 0)), Some [])"
    by (simp add: pgDB_def pgExec_def)
  note t0 = New_blank_or_bootstrap [of "''''" "pgDB ''''" None "pgDB ''''" None "[]"
      ?e None "Result (Inr 0)"]
  note t3 = New_blank_or_bootstrap [of "''   ''" "pgDB ''   ''" None "pgDB ''   ''" None "[]"
      ?e None "Result (Inr 0)"]
  note t4 = New_blank_or_bootstrap [of "''certs''" mockDB "[ReplyResult (Inl ?e)]"
      "pgDB ''certs''" None "[]" ?e "[]" "Result (Inr 0)"]
  note t5 = New_blank_or_bootstrap [of "''certs''" "pgDB ''certs''" None "pgDB ''certs''"
      None "[]" ?e "Some []" "Result (Inr 0)"]
  from t0 b0 have 0: "New (pgDB '''') '''' None
      = (Inl (ErrorString ''tableName must not be empty''), None)" by blast
  from t3 b3 have 1: "New (pgDB ''   '') ''   '' None
      = (Inl (ErrorString ''tableName must not be empty''), None)" by blast
  from t3 b3 have 2: "snd (snd (New (traced (pgDB ''   '')) ''   '' (None, []))) = []" by blast
  from t4 nb x1 have 3: "New mockDB ''certs'' [ReplyResult (Inl ?e)] = (Inl ?e, [])" by blast
  from t5 nb x2 have 4: "New (pgDB ''certs'') ''certs'' None
      = (Inr (cacheOf (pgDB ''certs'') ''certs'' Map.empty), Some [])" by blast
  from t5 nb have "snd (snd (New (traced (pgDB ''certs'')) ''certs'' (None, [])))
      = [] @ [CallExec (createQuery ''certs'') []]" by blast
  then have 5: "snd (snd (New (traced (pgDB ''certs'')) ''certs'' (None, [])))
      = [CallExec (createQuery ''certs'') []]" by simp
  from b0 0 b3 1 2 nb x1 3 x2 4 5 show ?thesis by blast
qed

end
